theory Spec2Isabelle
  imports Complex_Main "HOL-Library.Log_Nat"
begin

section \<open>Errors\<close>

text \<open>
  The Python exceptions that the modelled code can raise: a failed \<^verbatim>\<open>assert\<close>, and
  an attribute access on \<^verbatim>\<open>None\<close>.
\<close>

datatype error = AssertionError | AttributeError

section \<open>Problem input of the MDA problem\<close>

text \<open>
  Modelled from the spec: the classes \<^verbatim>\<open>Junction\<close>, \<^verbatim>\<open>ApartmentWithSymptomsReport\<close>,
  \<^verbatim>\<open>Laboratory\<close>, \<^verbatim>\<open>Ambulance\<close> and \<^verbatim>\<open>MDAProblemInput\<close> are declared outside
  the two source files (in the streets-map and problem-input modules). The
  records below hold the attributes that \<^verbatim>\<open>mda_problem.py\<close> reads, under the names it
  reads them by; the spec's problem-input interface lists the same ones: a
  pickup site has a location, a demand count and a display name, a drop-off site a
  location, a supply count and a display name, the ambulance an initial location,
  initial resource units and a carrying capacity. Counts are Python integers, so they
  are \<^typ>\<open>int\<close> here and may be zero or negative.
\<close>

record Junction =
  index :: int

record ApartmentWithSymptomsReport =
  reporter_name :: string
  location :: Junction
  nr_roommates :: int

record Laboratory =
  name :: string
  location :: Junction
  max_nr_matoshim :: int

record Ambulance =
  initial_location :: Junction
  initial_nr_matoshim :: int
  taken_tests_storage_capacity :: int

record MDAProblemInput =
  input_name :: string
  reported_apartments :: "ApartmentWithSymptomsReport list"
  ambulance :: Ambulance
  laboratories :: "Laboratory list"

section \<open>MDAState\<close>

text \<open>
  \<^verbatim>\<open>current_site: Union[Junction, Laboratory, ApartmentWithSymptomsReport]\<close> is a
  tagged union; the three frozensets are sets; equality of states is equality of all
  five fields, as \<^verbatim>\<open>__eq__\<close> has it.
\<close>

datatype Site =
  AtJunction Junction
| AtLaboratory Laboratory
| AtApartment ApartmentWithSymptomsReport

record MDAState =
  current_site :: Site
  tests_on_ambulance :: "ApartmentWithSymptomsReport set"
  tests_transferred_to_lab :: "ApartmentWithSymptomsReport set"
  nr_matoshim_on_ambulance :: int
  visited_labs :: "Laboratory set"

fun site_location :: "Site \<Rightarrow> Junction" where
  "site_location (AtApartment a) = ApartmentWithSymptomsReport.location a"
| "site_location (AtLaboratory l) = Laboratory.location l"
| "site_location (AtJunction j) = j"

definition current_location :: "MDAState \<Rightarrow> Junction" where
  "current_location s = site_location (current_site s)"

definition get_total_nr_tests_taken_and_stored_on_ambulance :: "MDAState \<Rightarrow> int" where
  "get_total_nr_tests_taken_and_stored_on_ambulance s =
     (\<Sum>apartment \<in> tests_on_ambulance s. nr_roommates apartment)"

fun is_laboratory :: "Site \<Rightarrow> bool" where
  "is_laboratory (AtLaboratory l) = True"
| "is_laboratory (AtJunction j) = False"
| "is_laboratory (AtApartment a) = False"

section \<open>MDACost\<close>

text \<open>
  The two scalar fields of a cost are Python floats: IEEE binary64 values. A finite one
  is held by its exact value, a real; the other values are the two infinities and NaN
  (the code itself constructs \<^verbatim>\<open>float('inf')\<close>). The two zeros are one value, as
  they are for Python's \<^verbatim>\<open>==\<close>.
\<close>

datatype cost_scalar = Finite real | PosInf | NegInf | NaN

text \<open>
  Rounding to the nearest multiple of \<open>2 ^ shift\<close>, a tie going to the even multiple.
\<close>

definition round_half_even :: "int \<Rightarrow> nat \<Rightarrow> int" where
  "round_half_even k shift =
     (let q = k div 2 ^ shift; r = k mod 2 ^ shift
      in if 2 * r > 2 ^ shift \<or> (2 * r = 2 ^ shift \<and> odd q) then (q + 1) * 2 ^ shift
         else q * 2 ^ shift)"

text \<open>
  The binary64 value of an exact result \<open>x\<close>, rounded to nearest, ties to even. Every
  finite binary64 value is a whole multiple of \<open>2 ^ - 1074\<close>, and so is the exact sum of
  two of them: \<open>k\<close> is the magnitude of \<open>x\<close> counted in that unit. A magnitude of up to
  53 bits is a binary64 value as it is; a longer one keeps its 53 leading bits. A
  rounded magnitude of \<open>2 ^ 1024\<close> or more overflows to an infinity.
\<close>

definition round_to_double :: "real \<Rightarrow> cost_scalar" where
  "round_to_double x =
     (let k = \<lfloor>\<bar>x\<bar> * 2 ^ 1074\<rfloor>;
          shift = nat (bitlen k - 53);
          m = round_half_even k shift
      in if m \<ge> 2 ^ 2098 then (if x < 0 then NegInf else PosInf)
         else Finite ((if x < 0 then - 1 else 1) * (of_int m / 2 ^ 1074)))"

text \<open>
  Python's \<^verbatim>\<open>+\<close> on floats: the exact sum of two finite values, rounded; the IEEE
  rules for infinities and NaN otherwise. Addition is the one float operation that is
  rounded here; the product of \<^verbatim>\<open>get_operator_cost\<close> below is the exact one.
\<close>

instantiation cost_scalar :: plus
begin

fun plus_cost_scalar :: "cost_scalar \<Rightarrow> cost_scalar \<Rightarrow> cost_scalar" where
  "plus_cost_scalar (Finite x) (Finite y) = round_to_double (x + y)"
| "plus_cost_scalar (Finite x) PosInf = PosInf"
| "plus_cost_scalar (Finite x) NegInf = NegInf"
| "plus_cost_scalar (Finite x) NaN = NaN"
| "plus_cost_scalar PosInf (Finite y) = PosInf"
| "plus_cost_scalar PosInf PosInf = PosInf"
| "plus_cost_scalar PosInf NegInf = NaN"
| "plus_cost_scalar PosInf NaN = NaN"
| "plus_cost_scalar NegInf (Finite y) = NegInf"
| "plus_cost_scalar NegInf PosInf = NaN"
| "plus_cost_scalar NegInf NegInf = NegInf"
| "plus_cost_scalar NegInf NaN = NaN"
| "plus_cost_scalar NaN y = NaN"

instance ..

end

text \<open>
  The sum of two finite values is exact when rounding leaves the exact sum as it is.
\<close>

definition exact_sum :: "cost_scalar \<Rightarrow> cost_scalar \<Rightarrow> bool" where
  "exact_sum u v =
     (case (u, v) of (Finite x, Finite y) \<Rightarrow> u + v = Finite (x + y) | _ \<Rightarrow> False)"

datatype MDAOptimizationObjective = Distance | TestsTravelDistance

text \<open>
  The cost record; its scalar type is a parameter, and the costs of this program are
  of type \<open>cost_scalar MDACost\<close>.
\<close>

record 'a MDACost =
  distance_cost :: 'a
  tests_travel_distance_cost :: 'a
  optimization_objective :: MDAOptimizationObjective

text \<open>
  \<^verbatim>\<open>MDACost.__add__\<close>. The first assertion, \<^verbatim>\<open>isinstance(other, MDACost)\<close>,
  holds by typing; the second one is the \<open>Inl\<close> branch.
\<close>

definition MDACost_add :: "('a::plus) MDACost \<Rightarrow> 'a MDACost \<Rightarrow> error + 'a MDACost" where
  "MDACost_add self other =
     (if optimization_objective other \<noteq> optimization_objective self then Inl AssertionError
      else Inr \<lparr>distance_cost = distance_cost self + distance_cost other,
                tests_travel_distance_cost =
                  tests_travel_distance_cost self + tests_travel_distance_cost other,
                optimization_objective = optimization_objective self\<rparr>)"

text \<open>
  The Python expressions \<^verbatim>\<open>(a + b) + c\<close> and \<^verbatim>\<open>a + (b + c)\<close>: an assertion that
  fails in the inner sum propagates.
\<close>

definition MDACost_add_left :: "('a::plus) MDACost \<Rightarrow> 'a MDACost \<Rightarrow> 'a MDACost \<Rightarrow> error + 'a MDACost" where
  "MDACost_add_left a b c =
     (case MDACost_add a b of Inl e \<Rightarrow> Inl e | Inr ab \<Rightarrow> MDACost_add ab c)"

definition MDACost_add_right :: "('a::plus) MDACost \<Rightarrow> 'a MDACost \<Rightarrow> 'a MDACost \<Rightarrow> error + 'a MDACost" where
  "MDACost_add_right a b c =
     (case MDACost_add b c of Inl e \<Rightarrow> Inl e | Inr bc \<Rightarrow> MDACost_add a bc)"

definition get_g_cost :: "'a MDACost \<Rightarrow> 'a" where
  "get_g_cost self =
     (if optimization_objective self = Distance then distance_cost self
      else tests_travel_distance_cost self)"

section \<open>MDAProblem\<close>

text \<open>
  \<^verbatim>\<open>map_distance_finder\<close> stands for the \<^verbatim>\<open>get_map_cost_between\<close> method of the
  cached distance finder, an external collaborator: a function of two junctions that
  returns a distance or \<^verbatim>\<open>None\<close> when there is no route. The field
  \<^verbatim>\<open>optimization_objective\<close> of the problem is \<open>problem_objective\<close> here, since the
  cost record has a field of the same name.
\<close>

record MDAProblem =
  problem_input :: MDAProblemInput
  map_distance_finder :: "Junction \<Rightarrow> Junction \<Rightarrow> real option"
  problem_objective :: MDAOptimizationObjective

record OperatorResult =
  successor_state :: MDAState
  operator_cost :: "cost_scalar MDACost"
  operator_name :: string

definition get_operator_cost :: "MDAProblem \<Rightarrow> MDAState \<Rightarrow> MDAState \<Rightarrow> cost_scalar MDACost" where
  "get_operator_cost self prev_state succ_state =
     (case map_distance_finder self (current_location prev_state) (current_location succ_state) of
        None \<Rightarrow> \<lparr>distance_cost = PosInf, tests_travel_distance_cost = PosInf,
                  optimization_objective = problem_objective self\<rparr>
      | Some distance \<Rightarrow>
          \<lparr>distance_cost = Finite distance,
           tests_travel_distance_cost =
             Finite (of_int (get_total_nr_tests_taken_and_stored_on_ambulance prev_state) * distance),
           optimization_objective = problem_objective self\<rparr>)"

definition is_goal :: "MDAProblem \<Rightarrow> MDAState \<Rightarrow> bool" where
  "is_goal self s =
     (let is_in_lab = is_laboratory (current_site s);
          all_tests_taken =
            (set (reported_apartments (problem_input self)) = tests_transferred_to_lab s)
      in is_in_lab \<and> all_tests_taken \<and> {} = tests_on_ambulance s \<and>
         nr_matoshim_on_ambulance s \<ge> 0 \<and>
         visited_labs s \<subseteq> set (laboratories (problem_input self)))"

definition get_reported_apartments_waiting_to_visit ::
  "MDAProblem \<Rightarrow> MDAState \<Rightarrow> ApartmentWithSymptomsReport set" where
  "get_reported_apartments_waiting_to_visit self s =
     (let all = set (reported_apartments (problem_input self));
          visited = tests_on_ambulance s;
          transferred = tests_transferred_to_lab s
      in all - (transferred \<union> visited))"

text \<open>
  A Python loop over a set visits each element once, in an order the language leaves
  open. The model fixes one: the order of first occurrence in the list the set was
  built from. Nothing proved below depends on the order.
\<close>

definition iterate_set :: "'a list \<Rightarrow> 'a set \<Rightarrow> 'a list" where
  "iterate_set universe S = filter (\<lambda>x. x \<in> S) (remdups universe)"

text \<open>The body of the first loop of \<^verbatim>\<open>expand_state_with_costs\<close>: zero or one yield.\<close>

definition visit_apartment ::
  "MDAProblem \<Rightarrow> MDAState \<Rightarrow> ApartmentWithSymptomsReport \<Rightarrow> OperatorResult list" where
  "visit_apartment self state_to_expand apartment =
     (let new_matoshim = nr_matoshim_on_ambulance state_to_expand - nr_roommates apartment;
          ambulance_capacity = taken_tests_storage_capacity (ambulance (problem_input self));
          remaining_capacity =
            ambulance_capacity - get_total_nr_tests_taken_and_stored_on_ambulance state_to_expand;
          new_capacity = remaining_capacity - nr_roommates apartment
      in if new_matoshim \<ge> 0 \<and> new_capacity \<ge> 0 then
           let new_tests_on_ambulance = insert apartment (tests_on_ambulance state_to_expand);
               succ = \<lparr>current_site = AtApartment apartment,
                       tests_on_ambulance = new_tests_on_ambulance,
                       tests_transferred_to_lab = tests_transferred_to_lab state_to_expand,
                       nr_matoshim_on_ambulance = new_matoshim,
                       visited_labs = visited_labs state_to_expand\<rparr>;
               visit_cost = get_operator_cost self state_to_expand succ
           in [\<lparr>successor_state = succ, operator_cost = visit_cost,
                operator_name = ''visit '' @ reporter_name apartment\<rparr>]
         else [])"

text \<open>The body of the second loop.\<close>

definition visit_lab :: "MDAProblem \<Rightarrow> MDAState \<Rightarrow> Laboratory \<Rightarrow> OperatorResult list" where
  "visit_lab self state_to_expand lab =
     (let tests = get_total_nr_tests_taken_and_stored_on_ambulance state_to_expand;
          is_visited_lab = (lab \<in> visited_labs state_to_expand)
      in if \<not> is_visited_lab \<or> tests > 0 then
           let new_matoshim =
                 (if \<not> is_visited_lab
                  then nr_matoshim_on_ambulance state_to_expand + max_nr_matoshim lab
                  else nr_matoshim_on_ambulance state_to_expand);
               new_visited_labs =
                 (if \<not> is_visited_lab then visited_labs state_to_expand \<union> {lab}
                  else visited_labs state_to_expand);
               new_transferred =
                 tests_transferred_to_lab state_to_expand \<union> tests_on_ambulance state_to_expand;
               succ = \<lparr>current_site = AtLaboratory lab,
                       tests_on_ambulance = {},
                       tests_transferred_to_lab = new_transferred,
                       nr_matoshim_on_ambulance = new_matoshim,
                       visited_labs = new_visited_labs\<rparr>;
               visit_cost = get_operator_cost self state_to_expand succ
           in [\<lparr>successor_state = succ, operator_cost = visit_cost,
                operator_name = ''go to lab '' @ name lab\<rparr>]
         else [])"

text \<open>The generator, as the list of what it yields, in order.\<close>

definition expand_state_with_costs :: "MDAProblem \<Rightarrow> MDAState \<Rightarrow> OperatorResult list" where
  "expand_state_with_costs self state_to_expand =
     concat (map (visit_apartment self state_to_expand)
               (iterate_set (reported_apartments (problem_input self))
                  (get_reported_apartments_waiting_to_visit self state_to_expand)))
     @ concat (map (visit_lab self state_to_expand) (laboratories (problem_input self)))"

text \<open>
  The states reached from \<open>s\<close> by exactly \<open>n\<close> rounds of successor generation.
\<close>

fun states_after :: "MDAProblem \<Rightarrow> nat \<Rightarrow> MDAState \<Rightarrow> MDAState list" where
  "states_after self 0 s = [s]"
| "states_after self (Suc n) s =
     concat (map (\<lambda>r. states_after self n (successor_state r)) (expand_state_with_costs self s))"

text \<open>
  \<^verbatim>\<open>sorted(remaining_junks, key=indices)\<close> over the set of the waiting apartments'
  locations and the current location.
\<close>

definition get_all_certain_junctions_in_remaining_ambulance_path ::
  "MDAProblem \<Rightarrow> MDAState \<Rightarrow> Junction list" where
  "get_all_certain_junctions_in_remaining_ambulance_path self s =
     (let waiting = iterate_set (reported_apartments (problem_input self))
                      (get_reported_apartments_waiting_to_visit self s);
          remaining_junks =
            remdups (map ApartmentWithSymptomsReport.location waiting @ [current_location s])
      in sort_key index remaining_junks)"

section \<open>Search nodes and the containers Open and Close\<close>

text \<open>
  Modelled from the spec: \<^verbatim>\<open>SearchNode\<close> and the two containers are framework
  classes declared outside the two source files. A search node is an immutable record
  of a state, the scalar objective of its accumulated cost (\<^verbatim>\<open>g_cost\<close>), a parent
  link, the label of the applied operator and its expansion priority.
\<close>

datatype 's SearchNode =
  SearchNode (state: 's) (g_cost: real) (parent_search_node: "'s SearchNode option")
    (node_operator_name: "string option") (expanding_priority: "real option")

text \<open>
  Modelled from the spec: Open and Close hold search nodes and are keyed by state:
  membership test by state, lookup of the node that represents a state, insertion,
  and removal of the entry of a node's state (by the state, not by the node's
  identity). A container is the list of its nodes, newest first; a lookup returns the
  newest node of the state. The priority order of Open plays no part in
  \<^verbatim>\<open>_open_successor_node\<close>; a node carries its priority with it.
\<close>

type_synonym 's nodes = "'s SearchNode list"

definition get_node_by_state :: "'s nodes \<Rightarrow> 's \<Rightarrow> 's SearchNode option" where
  "get_node_by_state c s = find (\<lambda>n. state n = s) c"

definition has_state :: "'s nodes \<Rightarrow> 's \<Rightarrow> bool" where
  "has_state c s = (get_node_by_state c s \<noteq> None)"

definition push_node :: "'s nodes \<Rightarrow> 's SearchNode \<Rightarrow> 's nodes" where
  "push_node c n = n # c"

definition extract_node :: "'s nodes \<Rightarrow> 's SearchNode \<Rightarrow> 's nodes" where
  "extract_node c n = filter (\<lambda>m. state m \<noteq> state n) c"

definition remove_node :: "'s nodes \<Rightarrow> 's SearchNode \<Rightarrow> 's nodes" where
  "remove_node c n = filter (\<lambda>m. state m \<noteq> state n) c"

section \<open>AStar\<close>

record 's Heuristic =
  heuristic_name :: string
  estimate :: "'s \<Rightarrow> real"

record ('s, 'p) AStar =
  use_close :: bool
  max_nr_states_to_expand :: "int option"
  open_criterion :: "('s SearchNode \<Rightarrow> bool) option"
  heuristic_function_type :: "'p \<Rightarrow> 's Heuristic"
  heuristic_function :: "'s Heuristic option"
  heuristic_weight :: real
  open_queue :: "'s nodes"
  close_coll :: "'s nodes"

text \<open>
  \<^verbatim>\<open>AStar.__init__\<close>. An argument left out in the call is \<open>None\<close> here, and the
  default of \<^verbatim>\<open>heuristic_weight\<close> is written out. The fields \<^verbatim>\<open>open\<close> and
  \<^verbatim>\<open>close\<close> of the solver are \<open>open_queue\<close> and \<open>close_coll\<close> here (the short names
  are taken by topology), and they start empty. Method names lose their leading
  underscore.
\<close>

definition AStar_init ::
  "('p \<Rightarrow> 's Heuristic) \<Rightarrow> real option \<Rightarrow> int option \<Rightarrow> ('s SearchNode \<Rightarrow> bool) option
     \<Rightarrow> ('s, 'p) AStar" where
  "AStar_init heuristic_function_type' heuristic_weight' max_nr_states_to_expand' open_criterion' =
     \<lparr>use_close = True,
      max_nr_states_to_expand = max_nr_states_to_expand',
      open_criterion = open_criterion',
      heuristic_function_type = heuristic_function_type',
      heuristic_function = None,
      heuristic_weight = (case heuristic_weight' of None \<Rightarrow> 0.5 | Some w \<Rightarrow> w),
      open_queue = [],
      close_coll = []\<rparr>"

text \<open>
  Modelled from the spec: \<^verbatim>\<open>BestFirstSearch._init_solver\<close> is outside the two
  source files; a run starts with fresh containers (spec 4.2).
\<close>

definition BestFirstSearch_init_solver :: "('s, 'p) AStar \<Rightarrow> 'p \<Rightarrow> ('s, 'p) AStar" where
  "BestFirstSearch_init_solver self problem = self\<lparr>open_queue := [], close_coll := []\<rparr>"

text \<open>
  \<^verbatim>\<open>AStar._init_solver\<close>: after the base class's part, the heuristic is built for the
  problem. The display name of the solver is left out.
\<close>

definition init_solver :: "('s, 'p) AStar \<Rightarrow> 'p \<Rightarrow> ('s, 'p) AStar" where
  "init_solver self problem =
     (BestFirstSearch_init_solver self problem)
       \<lparr>heuristic_function := Some (heuristic_function_type self problem)\<rparr>"

text \<open>
  \<^verbatim>\<open>AStar._calc_node_expanding_priority\<close>. Before \<^verbatim>\<open>_init_solver\<close> the heuristic is
  \<^verbatim>\<open>None\<close> and the call of \<^verbatim>\<open>estimate\<close> on it raises.
\<close>

definition calc_node_expanding_priority :: "('s, 'p) AStar \<Rightarrow> 's SearchNode \<Rightarrow> error + real" where
  "calc_node_expanding_priority self search_node =
     (case heuristic_function self of
        None \<Rightarrow> Inl AttributeError
      | Some h \<Rightarrow>
          (let h_cost = estimate h (state search_node)
           in Inr (((1 - heuristic_weight self) * g_cost search_node)
                   + (heuristic_weight self * h_cost))))"

text \<open>
  \<^verbatim>\<open>AStar._open_successor_node\<close>. A lookup that returned \<^verbatim>\<open>None\<close> would raise at
  \<^verbatim>\<open>existing_node.g_cost\<close>. In the Close branch the code passes the successor node
  itself to \<^verbatim>\<open>remove_node\<close>.
\<close>

definition open_successor_node :: "('s, 'p) AStar \<Rightarrow> 's SearchNode \<Rightarrow> error + ('s, 'p) AStar" where
  "open_successor_node self successor_node =
     (if has_state (open_queue self) (state successor_node) then
        (case get_node_by_state (open_queue self) (state successor_node) of
           None \<Rightarrow> Inl AttributeError
         | Some existing_node \<Rightarrow>
             if g_cost successor_node < g_cost existing_node
             then Inr (self\<lparr>open_queue :=
                        push_node (extract_node (open_queue self) existing_node) successor_node\<rparr>)
             else Inr self)
      else if has_state (close_coll self) (state successor_node) then
        (case get_node_by_state (close_coll self) (state successor_node) of
           None \<Rightarrow> Inl AttributeError
         | Some existing_node \<Rightarrow>
             if g_cost successor_node < g_cost existing_node
             then Inr (self\<lparr>close_coll := remove_node (close_coll self) successor_node,
                            open_queue := push_node (open_queue self) successor_node\<rparr>)
             else Inr self)
      else Inr (self\<lparr>open_queue := push_node (open_queue self) successor_node\<rparr>))"

section \<open>Example data\<close>

text \<open>
  A small problem on three junctions, with one reported apartment and one laboratory;
  there is no route from junction 0 to junction 2. Further down: an apartment that
  reports no roommates and a laboratory whose supply is negative, both legal values of
  the integer fields.
\<close>

definition junction_0 :: Junction where "junction_0 = \<lparr>index = 0\<rparr>"
definition junction_1 :: Junction where "junction_1 = \<lparr>index = 1\<rparr>"
definition junction_2 :: Junction where "junction_2 = \<lparr>index = 2\<rparr>"

definition apartment_dana :: ApartmentWithSymptomsReport where
  "apartment_dana = \<lparr>reporter_name = ''Dana'', location = junction_1, nr_roommates = 2\<rparr>"

definition apartment_noa :: ApartmentWithSymptomsReport where
  "apartment_noa = \<lparr>reporter_name = ''Noa'', location = junction_1, nr_roommates = 0\<rparr>"

definition laboratory_east :: Laboratory where
  "laboratory_east = \<lparr>name = ''East'', location = junction_2, max_nr_matoshim = 5\<rparr>"

definition laboratory_west :: Laboratory where
  "laboratory_west = \<lparr>name = ''West'', location = junction_1, max_nr_matoshim = - 1\<rparr>"

definition demo_distance :: "Junction \<Rightarrow> Junction \<Rightarrow> real option" where
  "demo_distance a b =
     (if index a = 0 \<and> index b = 2 then None else Some (of_int \<bar>index a - index b\<bar> * 10))"

definition demo_ambulance :: Ambulance where
  "demo_ambulance = \<lparr>initial_location = junction_0, initial_nr_matoshim = 3,
                      taken_tests_storage_capacity = 4\<rparr>"

definition demo_problem :: MDAProblem where
  "demo_problem =
     \<lparr>problem_input =
        \<lparr>input_name = ''demo'', reported_apartments = [apartment_dana],
         ambulance = demo_ambulance, laboratories = [laboratory_east]\<rparr>,
      map_distance_finder = demo_distance,
      problem_objective = Distance\<rparr>"

definition demo_problem_noa :: MDAProblem where
  "demo_problem_noa =
     \<lparr>problem_input =
        \<lparr>input_name = ''noa'', reported_apartments = [apartment_noa],
         ambulance = demo_ambulance, laboratories = [laboratory_east]\<rparr>,
      map_distance_finder = demo_distance,
      problem_objective = Distance\<rparr>"

definition demo_problem_west :: MDAProblem where
  "demo_problem_west =
     \<lparr>problem_input =
        \<lparr>input_name = ''west'', reported_apartments = [apartment_dana],
         ambulance = demo_ambulance\<lparr>initial_nr_matoshim := 0\<rparr>,
         laboratories = [laboratory_west]\<rparr>,
      map_distance_finder = demo_distance,
      problem_objective = Distance\<rparr>"

definition demo_initial_state :: MDAState where
  "demo_initial_state =
     \<lparr>current_site = AtJunction junction_0, tests_on_ambulance = {},
      tests_transferred_to_lab = {}, nr_matoshim_on_ambulance = 3, visited_labs = {}\<rparr>"

definition demo_state_at_dana :: MDAState where
  "demo_state_at_dana =
     \<lparr>current_site = AtApartment apartment_dana, tests_on_ambulance = {apartment_dana},
      tests_transferred_to_lab = {}, nr_matoshim_on_ambulance = 1, visited_labs = {}\<rparr>"

definition demo_goal_state :: MDAState where
  "demo_goal_state =
     \<lparr>current_site = AtLaboratory laboratory_east, tests_on_ambulance = {},
      tests_transferred_to_lab = {apartment_dana}, nr_matoshim_on_ambulance = 6,
      visited_labs = {laboratory_east}\<rparr>"

definition demo_state_at_noa :: MDAState where
  "demo_state_at_noa =
     \<lparr>current_site = AtApartment apartment_noa, tests_on_ambulance = {apartment_noa},
      tests_transferred_to_lab = {}, nr_matoshim_on_ambulance = 3,
      visited_labs = {laboratory_east}\<rparr>"

definition demo_state_no_matoshim :: MDAState where
  "demo_state_no_matoshim =
     \<lparr>current_site = AtJunction junction_0, tests_on_ambulance = {},
      tests_transferred_to_lab = {}, nr_matoshim_on_ambulance = 0, visited_labs = {}\<rparr>"

definition demo_cost_1 :: "cost_scalar MDACost" where
  "demo_cost_1 = \<lparr>distance_cost = Finite 10, tests_travel_distance_cost = Finite 20,
                   optimization_objective = Distance\<rparr>"

definition demo_cost_2 :: "cost_scalar MDACost" where
  "demo_cost_2 = \<lparr>distance_cost = PosInf, tests_travel_distance_cost = Finite 1,
                   optimization_objective = Distance\<rparr>"

definition demo_cost_3 :: "cost_scalar MDACost" where
  "demo_cost_3 = \<lparr>distance_cost = Finite 3, tests_travel_distance_cost = Finite 4,
                   optimization_objective = TestsTravelDistance\<rparr>"

definition demo_cost_big :: "cost_scalar MDACost" where
  "demo_cost_big = \<lparr>distance_cost = Finite 9007199254740992,
                     tests_travel_distance_cost = Finite 1,
                     optimization_objective = Distance\<rparr>"

definition demo_cost_unit :: "cost_scalar MDACost" where
  "demo_cost_unit = \<lparr>distance_cost = Finite 1, tests_travel_distance_cost = Finite 1,
                      optimization_objective = Distance\<rparr>"

definition demo_heuristic :: "nat Heuristic" where
  "demo_heuristic = \<lparr>heuristic_name = ''demo'', estimate = (\<lambda>s. of_nat s * 2)\<rparr>"

definition demo_node :: "nat SearchNode" where
  "demo_node = SearchNode 3 10 None None None"

definition demo_old_node :: "nat SearchNode" where
  "demo_old_node = SearchNode 3 12 None None None"

definition demo_cheap_node :: "nat SearchNode" where
  "demo_cheap_node = SearchNode 3 7 None None None"

definition demo_solver :: "(nat, unit) AStar" where
  "demo_solver = init_solver (AStar_init (\<lambda>p. demo_heuristic) None None None) ()"

definition laboratory_north :: Laboratory where
  "laboratory_north = \<lparr>name = ''North'', location = junction_0, max_nr_matoshim = 0\<rparr>"

definition demo_problem_two_labs :: MDAProblem where
  "demo_problem_two_labs =
     \<lparr>problem_input =
        \<lparr>input_name = ''two labs'', reported_apartments = [apartment_dana],
         ambulance = demo_ambulance, laboratories = [laboratory_east, laboratory_north]\<rparr>,
      map_distance_finder = demo_distance,
      problem_objective = Distance\<rparr>"

definition demo_state_after_north :: MDAState where
  "demo_state_after_north =
     \<lparr>current_site = AtLaboratory laboratory_north, tests_on_ambulance = {},
      tests_transferred_to_lab = {apartment_dana}, nr_matoshim_on_ambulance = 6,
      visited_labs = {laboratory_east, laboratory_north}\<rparr>"

definition demo_other_node :: "nat SearchNode" where
  "demo_other_node = SearchNode 5 1 None None None"

definition demo_solver_open :: "(nat, unit) AStar" where
  "demo_solver_open = demo_solver\<lparr>open_queue := [demo_other_node, demo_old_node]\<rparr>"

definition demo_solver_closed :: "(nat, unit) AStar" where
  "demo_solver_closed =
     demo_solver\<lparr>open_queue := [demo_other_node], close_coll := [demo_old_node]\<rparr>"

lemmas demo_defs = junction_0_def junction_1_def junction_2_def apartment_dana_def
  apartment_noa_def laboratory_east_def laboratory_west_def demo_distance_def
  demo_ambulance_def demo_problem_def demo_problem_noa_def demo_problem_west_def
  demo_initial_state_def demo_state_at_dana_def demo_goal_state_def demo_state_at_noa_def
  demo_state_no_matoshim_def laboratory_north_def demo_problem_two_labs_def
  demo_state_after_north_def

lemmas expand_defs = expand_state_with_costs_def iterate_set_def visit_apartment_def
  visit_lab_def get_reported_apartments_waiting_to_visit_def
  get_total_nr_tests_taken_and_stored_on_ambulance_def Let_def

section \<open>Properties of the cost\<close>

lemma div_scaled: "(a * 2 ^ c) div (2 ^ (s + c) :: int) = a div 2 ^ s"
  by (simp add: power_add)

lemma mod_scaled: "(a * 2 ^ c) mod (2 ^ (s + c) :: int) = (a mod 2 ^ s) * 2 ^ c"
  by (simp add: power_add mult_mod_left)

lemma round_half_even_scaled:
  "round_half_even (n * 2 ^ c) (s + c) = round_half_even n s * 2 ^ c"
  unfolding round_half_even_def Let_def div_scaled mod_scaled
  by (simp add: power_add algebra_simps)

lemma round_half_even_exact:
  "round_half_even (n * 2 ^ s) s = n * 2 ^ s"
  by (simp add: round_half_even_def)

lemma floor_scaled: "\<lfloor>\<bar>real_of_int n\<bar> * 2 ^ c\<rfloor> = \<bar>n\<bar> * 2 ^ c"
proof -
  have "\<bar>real_of_int n\<bar> * 2 ^ c = real_of_int (\<bar>n\<bar> * 2 ^ c)" by simp
  then show ?thesis by (simp only: floor_of_int)
qed

lemma round_scaled_int:
  assumes "0 < n"
  shows "round_half_even (n * 2 ^ 1074) (nat (bitlen (n * 2 ^ 1074) - 53)) =
    round_half_even n (nat (bitlen n - 53)) * 2 ^ 1074"
proof (cases "53 \<le> bitlen n")
  case True
  have "nat (bitlen (n * 2 ^ 1074) - 53) = nat (bitlen n - 53) + 1074"
    using assms True by (simp only: bitlen_pow2)
  then show ?thesis by (simp only: round_half_even_scaled)
next
  case False
  then have s: "nat (bitlen n - 53) = 0" by simp
  define d where "d = nat (bitlen n + 1021)"
  have le: "d \<le> 1074" using False by (simp add: d_def)
  have sh: "nat (bitlen (n * 2 ^ 1074) - 53) = d"
    using assms by (simp only: bitlen_pow2 d_def)
  have "n * 2 ^ 1074 = (n * 2 ^ (1074 - d)) * 2 ^ d"
    using le by (simp add: power_add [symmetric] mult.assoc)
  then have "round_half_even (n * 2 ^ 1074) d = n * 2 ^ 1074"
    using round_half_even_exact [of "n * 2 ^ (1074 - d)" d] by (simp only:)
  moreover have "round_half_even n 0 = n" by (simp add: round_half_even_def)
  ultimately show ?thesis by (simp only: sh s)
qed

text \<open>
  Rounding a positive whole number: the unit \<open>2 ^ - 1074\<close> cancels, and what is left is
  the rounding of the number itself to 53 bits.
\<close>

lemma round_to_double_of_int:
  assumes "0 < n"
  shows "round_to_double (real_of_int n) =
    (let m = round_half_even n (nat (bitlen n - 53))
     in if m \<ge> 2 ^ 1024 then PosInf else Finite (real_of_int m))"
proof -
  have k: "\<lfloor>\<bar>real_of_int n\<bar> * 2 ^ 1074\<rfloor> = n * 2 ^ 1074"
    using assms floor_scaled [of n 1074] by simp
  have pos: "\<not> real_of_int n < 0" using assms by simp
  have ov: "(2 ^ 2098 \<le> m * (2 ^ 1074 :: int)) = (2 ^ 1024 \<le> m)" for m :: int
  proof -
    have "(2 ^ 2098 :: int) = 2 ^ 1024 * 2 ^ 1074" by (simp add: power_add [symmetric])
    then show ?thesis by (simp only: mult_le_cancel_right) simp
  qed
  have val: "real_of_int (m * 2 ^ 1074) / 2 ^ 1074 = real_of_int m" for m :: int
    by simp
  show ?thesis
    unfolding round_to_double_def Let_def k round_scaled_int [OF assms] ov val
    using pos by simp
qed

lemma round_to_double_examples:
  "round_to_double 2 = Finite 2"
  "round_to_double 3 = Finite 3"
  "round_to_double 20 = Finite 20"
  "round_to_double 40 = Finite 40"
  "round_to_double 30 = Finite 30"
  "round_to_double 60 = Finite 60"
  "round_to_double 21 = Finite 21"
  "round_to_double 9007199254740993 = Finite 9007199254740992"
  "round_to_double 9007199254740994 = Finite 9007199254740994"
proof -
  have len: "bitlen 2 = 2" "bitlen 3 = 2" "bitlen 20 = 5" "bitlen 40 = 6" "bitlen 30 = 5"
    "bitlen 60 = 6" "bitlen 21 = 5"
    "bitlen 9007199254740993 = 54" "bitlen 9007199254740994 = 54"
    by code_simp+
  have "round_to_double (real_of_int 2) = Finite (real_of_int 2)"
    by (subst round_to_double_of_int) (simp_all add: len round_half_even_def)
  then show "round_to_double 2 = Finite 2" by simp
  have "round_to_double (real_of_int 3) = Finite (real_of_int 3)"
    by (subst round_to_double_of_int) (simp_all add: len round_half_even_def)
  then show "round_to_double 3 = Finite 3" by simp
  have "round_to_double (real_of_int 20) = Finite (real_of_int 20)"
    by (subst round_to_double_of_int) (simp_all add: len round_half_even_def)
  then show "round_to_double 20 = Finite 20" by simp
  have "round_to_double (real_of_int 40) = Finite (real_of_int 40)"
    by (subst round_to_double_of_int) (simp_all add: len round_half_even_def)
  then show "round_to_double 40 = Finite 40" by simp
  have "round_to_double (real_of_int 30) = Finite (real_of_int 30)"
    by (subst round_to_double_of_int) (simp_all add: len round_half_even_def)
  then show "round_to_double 30 = Finite 30" by simp
  have "round_to_double (real_of_int 60) = Finite (real_of_int 60)"
    by (subst round_to_double_of_int) (simp_all add: len round_half_even_def)
  then show "round_to_double 60 = Finite 60" by simp
  have "round_to_double (real_of_int 21) = Finite (real_of_int 21)"
    by (subst round_to_double_of_int) (simp_all add: len round_half_even_def)
  then show "round_to_double 21 = Finite 21" by simp
  have "round_to_double (real_of_int 9007199254740993) = Finite (real_of_int 9007199254740992)"
    by (subst round_to_double_of_int) (simp_all add: len round_half_even_def)
  then show "round_to_double 9007199254740993 = Finite 9007199254740992" by simp
  have "round_to_double (real_of_int 9007199254740994) = Finite (real_of_int 9007199254740994)"
    by (subst round_to_double_of_int) (simp_all add: len round_half_even_def)
  then show "round_to_double 9007199254740994 = Finite 9007199254740994" by simp
qed

lemma cost_scalar_add_commute: "u + v = v + (u :: cost_scalar)"
  by (cases u; cases v) (simp_all add: add.commute)

lemma cost_scalar_add_assoc_exact:
  assumes "exact_sum u v" and "exact_sum v w"
  shows "(u + v) + w = u + (v + w)"
proof -
  from assms(1) obtain x y where u: "u = Finite x" and v: "v = Finite y"
    and uv: "u + v = Finite (x + y)"
    by (cases u; cases v) (simp_all add: exact_sum_def)
  from assms(2) v obtain z where w: "w = Finite z" and vw: "v + w = Finite (y + z)"
    by (cases w) (simp_all add: exact_sum_def)
  have "(u + v) + w = round_to_double ((x + y) + z)"
    by (simp only: uv w plus_cost_scalar.simps)
  also have "\<dots> = round_to_double (x + (y + z))"
    by (simp only: add.assoc)
  also have "\<dots> = u + (v + w)"
    by (simp only: vw u plus_cost_scalar.simps)
  finally show ?thesis .
qed

text \<open>
  A sum is NaN only when an operand is NaN or one is the negative infinity.
\<close>

lemma cost_scalar_add_not_nan:
  assumes "u \<noteq> NaN" and "v \<noteq> NaN" and "u \<noteq> NegInf" and "v \<noteq> NegInf"
  shows "u + v \<noteq> NaN"
  using assms by (cases u; cases v) (simp_all add: round_to_double_def Let_def)

lemma MDACost_add_three_tags:
  "map_sum id optimization_objective (MDACost_add_left a b c) =
   map_sum id optimization_objective (MDACost_add_right a b c)"
  by (cases "optimization_objective a"; cases "optimization_objective b";
      cases "optimization_objective c")
     (simp_all add: MDACost_add_def MDACost_add_left_def MDACost_add_right_def)

text \<open>
  Claim C7, as the code has it. Adding two costs with the same objective gives the cost
  whose two scalar fields are the float sums of the operands' fields and whose
  objective is the common one; adding costs with different objectives fails with an
  assertion error. The addition is commutative. \<^verbatim>\<open>(a + b) + c\<close> and \<^verbatim>\<open>a + (b + c)\<close> are
  the same cost when, in both fields, the sums \<open>a + b\<close> and \<open>b + c\<close> are exact; in any
  case the two fail together or have the same objective. Equality is equality of float
  values, with NaN one value (Python's \<^verbatim>\<open>==\<close> is false on NaN); a sum is NaN only
  when an operand is NaN or the operands are the two opposite infinities, which costs
  that are not negative never are.
\<close>

theorem MDACost_add_laws:
  fixes a b c :: "cost_scalar MDACost"
  shows
  "(optimization_objective a = optimization_objective b \<longrightarrow>
      MDACost_add a b =
        Inr \<lparr>distance_cost = distance_cost a + distance_cost b,
             tests_travel_distance_cost =
               tests_travel_distance_cost a + tests_travel_distance_cost b,
             optimization_objective = optimization_objective a\<rparr>) \<and>
   (optimization_objective a \<noteq> optimization_objective b \<longrightarrow>
      MDACost_add a b = Inl AssertionError) \<and>
   MDACost_add a b = MDACost_add b a \<and>
   (exact_sum (distance_cost a) (distance_cost b) \<and>
    exact_sum (distance_cost b) (distance_cost c) \<and>
    exact_sum (tests_travel_distance_cost a) (tests_travel_distance_cost b) \<and>
    exact_sum (tests_travel_distance_cost b) (tests_travel_distance_cost c) \<longrightarrow>
      MDACost_add_left a b c = MDACost_add_right a b c) \<and>
   map_sum id optimization_objective (MDACost_add_left a b c) =
     map_sum id optimization_objective (MDACost_add_right a b c)"
proof -
  have comm: "MDACost_add a b = MDACost_add b a"
    by (simp add: MDACost_add_def cost_scalar_add_commute)
  have assoc: "MDACost_add_left a b c = MDACost_add_right a b c"
    if "exact_sum (distance_cost a) (distance_cost b)"
      and "exact_sum (distance_cost b) (distance_cost c)"
      and "exact_sum (tests_travel_distance_cost a) (tests_travel_distance_cost b)"
      and "exact_sum (tests_travel_distance_cost b) (tests_travel_distance_cost c)"
    using cost_scalar_add_assoc_exact [OF that(1) that(2)]
      cost_scalar_add_assoc_exact [OF that(3) that(4)]
    by (cases "optimization_objective a"; cases "optimization_objective b";
        cases "optimization_objective c")
       (simp_all add: MDACost_add_def MDACost_add_left_def MDACost_add_right_def)
  show ?thesis
    using comm assoc MDACost_add_three_tags [of a b c] by (simp add: MDACost_add_def)
qed

theorem MDACost_add_laws_witness:
  "MDACost_add demo_cost_1 demo_cost_2 =
     Inr \<lparr>distance_cost = PosInf, tests_travel_distance_cost = Finite 21,
          optimization_objective = Distance\<rparr> \<and>
   MDACost_add demo_cost_1 demo_cost_3 = Inl AssertionError \<and>
   MDACost_add demo_cost_2 demo_cost_1 = MDACost_add demo_cost_1 demo_cost_2 \<and>
   MDACost_add_left demo_cost_1 demo_cost_1 demo_cost_1 =
     MDACost_add_right demo_cost_1 demo_cost_1 demo_cost_1 \<and>
   MDACost_add_right demo_cost_1 demo_cost_1 demo_cost_1 =
     Inr \<lparr>distance_cost = Finite 30, tests_travel_distance_cost = Finite 60,
          optimization_objective = Distance\<rparr>"
proof -
  note same = MDACost_add_laws [of demo_cost_1 demo_cost_2 demo_cost_1]
  note differ = MDACost_add_laws [of demo_cost_1 demo_cost_3 demo_cost_1]
  note three = MDACost_add_laws [of demo_cost_1 demo_cost_1 demo_cost_1]
  have "optimization_objective demo_cost_1 = optimization_objective demo_cost_2"
    by (simp add: demo_cost_1_def demo_cost_2_def)
  with same have sum: "MDACost_add demo_cost_1 demo_cost_2 =
     Inr \<lparr>distance_cost = PosInf, tests_travel_distance_cost = Finite 21,
          optimization_objective = Distance\<rparr>"
    by (simp add: demo_cost_1_def demo_cost_2_def round_to_double_examples)
  have "optimization_objective demo_cost_1 \<noteq> optimization_objective demo_cost_3"
    by (simp add: demo_cost_1_def demo_cost_3_def)
  with differ have fails: "MDACost_add demo_cost_1 demo_cost_3 = Inl AssertionError"
    by blast
  from same have comm: "MDACost_add demo_cost_2 demo_cost_1 = MDACost_add demo_cost_1 demo_cost_2"
    by simp
  have exact: "exact_sum (distance_cost demo_cost_1) (distance_cost demo_cost_1)"
    "exact_sum (tests_travel_distance_cost demo_cost_1) (tests_travel_distance_cost demo_cost_1)"
    by (simp_all add: exact_sum_def demo_cost_1_def round_to_double_examples)
  with three have assoc: "MDACost_add_left demo_cost_1 demo_cost_1 demo_cost_1 =
     MDACost_add_right demo_cost_1 demo_cost_1 demo_cost_1"
    by blast
  have right: "MDACost_add_right demo_cost_1 demo_cost_1 demo_cost_1 =
     Inr \<lparr>distance_cost = Finite 30, tests_travel_distance_cost = Finite 60,
          optimization_objective = Distance\<rparr>"
    by (simp add: MDACost_add_right_def MDACost_add_def demo_cost_1_def
        round_to_double_examples)
  from sum fails comm assoc right show ?thesis
    by blast
qed

text \<open>
  With floats the two groupings differ: \<open>2 ^ 53 + 1\<close> lies halfway between the
  neighbouring binary64 values \<open>2 ^ 53\<close> and \<open>2 ^ 53 + 2\<close> and rounds to the even one,
  \<open>2 ^ 53\<close>, so that adding \<open>1.0\<close> twice to \<open>9007199254740992.0\<close> leaves it as it is,
  while adding \<open>2.0\<close> gives \<open>9007199254740994.0\<close>.
\<close>

theorem rounding_breaks_associativity:
  "optimization_objective demo_cost_big = optimization_objective demo_cost_unit \<and>
   MDACost_add_left demo_cost_big demo_cost_unit demo_cost_unit =
     Inr \<lparr>distance_cost = Finite 9007199254740992, tests_travel_distance_cost = Finite 3,
          optimization_objective = Distance\<rparr> \<and>
   MDACost_add_right demo_cost_big demo_cost_unit demo_cost_unit =
     Inr \<lparr>distance_cost = Finite 9007199254740994, tests_travel_distance_cost = Finite 3,
          optimization_objective = Distance\<rparr> \<and>
   MDACost_add_left demo_cost_big demo_cost_unit demo_cost_unit \<noteq>
     MDACost_add_right demo_cost_big demo_cost_unit demo_cost_unit"
  by (simp add: MDACost_add_left_def MDACost_add_right_def MDACost_add_def
      demo_cost_big_def demo_cost_unit_def round_to_double_examples)

text \<open>
  Claim C6. When the distance lookup reports no route, the operator cost has both
  scalar fields infinite; otherwise its distance is the looked-up distance and its
  tests-travel distance is the number of tests aboard in the previous state times that
  distance. The function is total: it returns a cost in both cases.
\<close>

theorem get_operator_cost_cases:
  "(map_distance_finder p (current_location prev) (current_location succ) = None \<longrightarrow>
      get_operator_cost p prev succ =
        \<lparr>distance_cost = PosInf, tests_travel_distance_cost = PosInf,
         optimization_objective = problem_objective p\<rparr>) \<and>
   (\<forall>d. map_distance_finder p (current_location prev) (current_location succ) = Some d \<longrightarrow>
      get_operator_cost p prev succ =
        \<lparr>distance_cost = Finite d,
         tests_travel_distance_cost =
           Finite (of_int (\<Sum>a\<in>tests_on_ambulance prev. nr_roommates a) * d),
         optimization_objective = problem_objective p\<rparr>)"
  by (simp add: get_operator_cost_def get_total_nr_tests_taken_and_stored_on_ambulance_def)

theorem get_operator_cost_cases_witness:
  "get_operator_cost demo_problem demo_initial_state demo_goal_state =
     \<lparr>distance_cost = PosInf, tests_travel_distance_cost = PosInf,
      optimization_objective = Distance\<rparr> \<and>
   get_operator_cost demo_problem demo_state_at_dana demo_goal_state =
     \<lparr>distance_cost = Finite 10, tests_travel_distance_cost = Finite 20,
      optimization_objective = Distance\<rparr>"
  using get_operator_cost_cases [of demo_problem demo_initial_state demo_goal_state]
    get_operator_cost_cases [of demo_problem demo_state_at_dana demo_goal_state]
  by (simp add: demo_defs current_location_def)

section \<open>Properties of the goal test\<close>

text \<open>
  Claim C5. A state is a goal exactly when its current site is a laboratory, the
  apartments transferred to a lab are exactly the reported apartments of the input,
  no tests are on the ambulance, the matoshim count is not negative and the visited
  laboratories are among the laboratories of the input.
\<close>

theorem is_goal_iff:
  "is_goal p s \<longleftrightarrow>
     ((\<exists>l. current_site s = AtLaboratory l) \<and>
      tests_transferred_to_lab s = set (reported_apartments (problem_input p)) \<and>
      tests_on_ambulance s = {} \<and>
      0 \<le> nr_matoshim_on_ambulance s \<and>
      visited_labs s \<subseteq> set (laboratories (problem_input p)))"
  by (cases "current_site s") (auto simp: is_goal_def Let_def)

theorem is_goal_iff_witness:
  "is_goal demo_problem demo_goal_state \<and> \<not> is_goal demo_problem demo_state_at_dana"
  using is_goal_iff [of demo_problem demo_goal_state]
    is_goal_iff [of demo_problem demo_state_at_dana]
  by (simp add: demo_defs)

section \<open>Properties of AStar\<close>

text \<open>
  Claim C2. Once the heuristic is set, the expansion priority of a node is
  \<open>(1 - w) * g + w * h\<close>, with \<open>g\<close> the node's accumulated objective cost, \<open>h\<close> the
  heuristic's estimate for the node's state and \<open>w\<close> the solver's weight. The weight is
  0.5 when the constructor is given none, the given one otherwise, and neither
  \<^verbatim>\<open>_init_solver\<close> nor \<^verbatim>\<open>_open_successor_node\<close> changes it.
\<close>

theorem calc_node_expanding_priority_formula:
  "(heuristic_function solver = Some h \<longrightarrow>
      calc_node_expanding_priority solver n =
        Inr ((1 - heuristic_weight solver) * g_cost n
             + heuristic_weight solver * estimate h (state n))) \<and>
   heuristic_weight (AStar_init hft None mx oc :: ('s, 'p) AStar) = 0.5 \<and>
   heuristic_weight (AStar_init hft (Some w) mx oc :: ('s, 'p) AStar) = w \<and>
   heuristic_weight (init_solver solver problem) = heuristic_weight solver \<and>
   heuristic_function (init_solver solver problem) =
     Some (heuristic_function_type solver problem) \<and>
   (\<forall>solver'. open_successor_node solver n = Inr solver' \<longrightarrow>
      heuristic_weight solver' = heuristic_weight solver)"
  by (auto simp: calc_node_expanding_priority_def AStar_init_def init_solver_def
      BestFirstSearch_init_solver_def
      open_successor_node_def split: option.splits if_splits)

theorem calc_node_expanding_priority_formula_witness:
  "calc_node_expanding_priority
     (init_solver (AStar_init (\<lambda>p::unit. demo_heuristic) None None None) ()) demo_node = Inr 8"
  using calc_node_expanding_priority_formula
    [of "init_solver (AStar_init (\<lambda>p::unit. demo_heuristic) None None None) ()"
        demo_heuristic demo_node "\<lambda>p::unit. demo_heuristic" None None 0
        "()"]
  by (simp add: init_solver_def BestFirstSearch_init_solver_def AStar_init_def
      demo_heuristic_def demo_node_def)

section \<open>Successor generation\<close>

lemma set_iterate_set: "set (iterate_set xs S) = set xs \<inter> S"
  by (auto simp: iterate_set_def)

lemma distinct_iterate_set: "distinct (iterate_set xs S)"
  by (simp add: iterate_set_def)

lemma waiting_iff:
  "a \<in> get_reported_apartments_waiting_to_visit p s \<longleftrightarrow>
     a \<in> set (reported_apartments (problem_input p)) \<and> a \<notin> tests_on_ambulance s \<and>
     a \<notin> tests_transferred_to_lab s"
  by (auto simp: get_reported_apartments_waiting_to_visit_def Let_def)

lemma set_expand:
  "set (expand_state_with_costs p s) =
     (\<Union>a \<in> get_reported_apartments_waiting_to_visit p s. set (visit_apartment p s a)) \<union>
     (\<Union>l \<in> set (laboratories (problem_input p)). set (visit_lab p s l))"
  by (auto simp: expand_state_with_costs_def set_iterate_set
      get_reported_apartments_waiting_to_visit_def Let_def)

lemma in_visit_apartment:
  "r \<in> set (visit_apartment p s a) \<longleftrightarrow>
     0 \<le> nr_matoshim_on_ambulance s - nr_roommates a \<and>
     get_total_nr_tests_taken_and_stored_on_ambulance s + nr_roommates a
       \<le> taken_tests_storage_capacity (ambulance (problem_input p)) \<and>
     r = \<lparr>successor_state =
            s\<lparr>current_site := AtApartment a,
              tests_on_ambulance := insert a (tests_on_ambulance s),
              nr_matoshim_on_ambulance := nr_matoshim_on_ambulance s - nr_roommates a\<rparr>,
          operator_cost = get_operator_cost p s
            (s\<lparr>current_site := AtApartment a,
               tests_on_ambulance := insert a (tests_on_ambulance s),
               nr_matoshim_on_ambulance := nr_matoshim_on_ambulance s - nr_roommates a\<rparr>),
          operator_name = ''visit '' @ reporter_name a\<rparr>"
  by (cases s) (auto simp: visit_apartment_def Let_def)

lemma in_visit_lab:
  "r \<in> set (visit_lab p s l) \<longleftrightarrow>
     (l \<notin> visited_labs s \<or> 0 < get_total_nr_tests_taken_and_stored_on_ambulance s) \<and>
     r = \<lparr>successor_state =
            \<lparr>current_site = AtLaboratory l,
             tests_on_ambulance = {},
             tests_transferred_to_lab = tests_transferred_to_lab s \<union> tests_on_ambulance s,
             nr_matoshim_on_ambulance =
               (if l \<notin> visited_labs s then nr_matoshim_on_ambulance s + max_nr_matoshim l
                else nr_matoshim_on_ambulance s),
             visited_labs =
               (if l \<notin> visited_labs s then insert l (visited_labs s) else visited_labs s)\<rparr>,
          operator_cost = get_operator_cost p s
            \<lparr>current_site = AtLaboratory l,
             tests_on_ambulance = {},
             tests_transferred_to_lab = tests_transferred_to_lab s \<union> tests_on_ambulance s,
             nr_matoshim_on_ambulance =
               (if l \<notin> visited_labs s then nr_matoshim_on_ambulance s + max_nr_matoshim l
                else nr_matoshim_on_ambulance s),
             visited_labs =
               (if l \<notin> visited_labs s then insert l (visited_labs s) else visited_labs s)\<rparr>,
          operator_name = ''go to lab '' @ name l\<rparr>"
  by (auto simp: visit_lab_def Let_def)

lemma visit_apartment_site:
  "r \<in> set (visit_apartment p s a) \<Longrightarrow> current_site (successor_state r) = AtApartment a"
  by (simp add: in_visit_apartment)

lemma visit_lab_site:
  "r \<in> set (visit_lab p s l) \<Longrightarrow> current_site (successor_state r) = AtLaboratory l"
  by (simp add: in_visit_lab)

lemma expand_cases:
  "r \<in> set (expand_state_with_costs p s) \<longleftrightarrow>
     (\<exists>a \<in> get_reported_apartments_waiting_to_visit p s. r \<in> set (visit_apartment p s a)) \<or>
     (\<exists>l \<in> set (laboratories (problem_input p)). r \<in> set (visit_lab p s l))"
  by (simp add: set_expand)

lemma pickup_results:
  "r \<in> set (expand_state_with_costs p s) \<and> current_site (successor_state r) = AtApartment a
     \<longleftrightarrow> a \<in> get_reported_apartments_waiting_to_visit p s \<and> r \<in> set (visit_apartment p s a)"
proof
  assume l: "r \<in> set (expand_state_with_costs p s) \<and>
    current_site (successor_state r) = AtApartment a"
  then consider
    (apartment) x where "x \<in> get_reported_apartments_waiting_to_visit p s"
      "r \<in> set (visit_apartment p s x)"
    | (lab) y where "r \<in> set (visit_lab p s y)"
    unfolding expand_cases by blast
  then show "a \<in> get_reported_apartments_waiting_to_visit p s \<and> r \<in> set (visit_apartment p s a)"
  proof cases
    case apartment
    from visit_apartment_site [OF apartment(2)] l have "x = a" by simp
    with apartment show ?thesis by simp
  next
    case lab
    from visit_lab_site [OF lab] l show ?thesis by simp
  qed
next
  assume "a \<in> get_reported_apartments_waiting_to_visit p s \<and> r \<in> set (visit_apartment p s a)"
  then show "r \<in> set (expand_state_with_costs p s) \<and>
    current_site (successor_state r) = AtApartment a"
    using visit_apartment_site [of r p s a] unfolding expand_cases by blast
qed

lemma lab_results:
  "r \<in> set (expand_state_with_costs p s) \<and> current_site (successor_state r) = AtLaboratory l
     \<longleftrightarrow> l \<in> set (laboratories (problem_input p)) \<and> r \<in> set (visit_lab p s l)"
proof
  assume l: "r \<in> set (expand_state_with_costs p s) \<and>
    current_site (successor_state r) = AtLaboratory l"
  then consider
    (apartment) x where "r \<in> set (visit_apartment p s x)"
    | (lab) y where "y \<in> set (laboratories (problem_input p))" "r \<in> set (visit_lab p s y)"
    unfolding expand_cases by blast
  then show "l \<in> set (laboratories (problem_input p)) \<and> r \<in> set (visit_lab p s l)"
  proof cases
    case apartment
    from visit_apartment_site [OF apartment] l show ?thesis by simp
  next
    case lab
    from visit_lab_site [OF lab(2)] l have "y = l" by simp
    with lab show ?thesis by simp
  qed
next
  assume "l \<in> set (laboratories (problem_input p)) \<and> r \<in> set (visit_lab p s l)"
  then show "r \<in> set (expand_state_with_costs p s) \<and>
    current_site (successor_state r) = AtLaboratory l"
    using visit_lab_site [of r p s l] unfolding expand_cases by blast
qed

lemma visit_apartment_nonempty:
  "(\<exists>r. r \<in> set (visit_apartment p s a)) \<longleftrightarrow>
     0 \<le> nr_matoshim_on_ambulance s - nr_roommates a \<and>
     get_total_nr_tests_taken_and_stored_on_ambulance s + nr_roommates a
       \<le> taken_tests_storage_capacity (ambulance (problem_input p))"
  by (simp add: in_visit_apartment)

lemma visit_lab_nonempty:
  "(\<exists>r. r \<in> set (visit_lab p s l)) \<longleftrightarrow>
     (l \<notin> visited_labs s \<or> 0 < get_total_nr_tests_taken_and_stored_on_ambulance s)"
  by (simp add: in_visit_lab)

text \<open>
  Claim C3. The expansion yields a successor whose site is the apartment \<open>a\<close> exactly
  when \<open>a\<close> is a reported apartment that is neither on the ambulance nor transferred,
  the matoshim left after the visit are not negative, and the tests aboard plus the
  roommates of \<open>a\<close> fit the storage capacity. Every such successor is the expanded
  state with the site set to \<open>a\<close>, \<open>a\<close> added to the tests on the ambulance and the
  matoshim decreased by the roommates of \<open>a\<close>; its label is "visit " followed by the
  reporter's name, and its cost is the operator cost of the transition.
\<close>

theorem expand_pickup_successor:
  "((\<exists>r \<in> set (expand_state_with_costs p s). current_site (successor_state r) = AtApartment a)
      \<longleftrightarrow>
      a \<in> set (reported_apartments (problem_input p)) \<and>
      a \<notin> tests_on_ambulance s \<and> a \<notin> tests_transferred_to_lab s \<and>
      0 \<le> nr_matoshim_on_ambulance s - nr_roommates a \<and>
      (\<Sum>b \<in> tests_on_ambulance s. nr_roommates b) + nr_roommates a
        \<le> taken_tests_storage_capacity (ambulance (problem_input p))) \<and>
   (\<forall>r \<in> set (expand_state_with_costs p s).
      current_site (successor_state r) = AtApartment a \<longrightarrow>
        successor_state r =
          s\<lparr>current_site := AtApartment a,
            tests_on_ambulance := insert a (tests_on_ambulance s),
            nr_matoshim_on_ambulance := nr_matoshim_on_ambulance s - nr_roommates a\<rparr> \<and>
        operator_name r = ''visit '' @ reporter_name a \<and>
        operator_cost r = get_operator_cost p s (successor_state r))"
proof (intro conjI ballI impI)
  have "(\<exists>r \<in> set (expand_state_with_costs p s). current_site (successor_state r) = AtApartment a)
      \<longleftrightarrow> a \<in> get_reported_apartments_waiting_to_visit p s \<and>
          (\<exists>r. r \<in> set (visit_apartment p s a))"
    using pickup_results [of _ p s a] by blast
  then show "(\<exists>r \<in> set (expand_state_with_costs p s).
        current_site (successor_state r) = AtApartment a) \<longleftrightarrow>
      a \<in> set (reported_apartments (problem_input p)) \<and>
      a \<notin> tests_on_ambulance s \<and> a \<notin> tests_transferred_to_lab s \<and>
      0 \<le> nr_matoshim_on_ambulance s - nr_roommates a \<and>
      (\<Sum>b \<in> tests_on_ambulance s. nr_roommates b) + nr_roommates a
        \<le> taken_tests_storage_capacity (ambulance (problem_input p))"
    unfolding visit_apartment_nonempty waiting_iff
      get_total_nr_tests_taken_and_stored_on_ambulance_def
    by blast
next
  fix r
  assume "r \<in> set (expand_state_with_costs p s)"
    and "current_site (successor_state r) = AtApartment a"
  then have r: "r \<in> set (visit_apartment p s a)"
    using pickup_results [of r p s a] by blast
  from r show "successor_state r =
          s\<lparr>current_site := AtApartment a,
            tests_on_ambulance := insert a (tests_on_ambulance s),
            nr_matoshim_on_ambulance := nr_matoshim_on_ambulance s - nr_roommates a\<rparr>"
    by (simp add: in_visit_apartment)
  from r show "operator_name r = ''visit '' @ reporter_name a"
    by (simp add: in_visit_apartment)
  from r show "operator_cost r = get_operator_cost p s (successor_state r)"
    by (simp add: in_visit_apartment)
qed

theorem expand_pickup_successor_witness:
  "(\<exists>r \<in> set (expand_state_with_costs demo_problem demo_initial_state).
      current_site (successor_state r) = AtApartment apartment_dana) \<and>
   \<not> (\<exists>r \<in> set (expand_state_with_costs demo_problem demo_state_at_dana).
      current_site (successor_state r) = AtApartment apartment_dana) \<and>
   map operator_name (expand_state_with_costs demo_problem demo_initial_state) =
     [''visit Dana'', ''go to lab East'']"
proof -
  have yes: "apartment_dana \<in> set (reported_apartments (problem_input demo_problem)) \<and>
      apartment_dana \<notin> tests_on_ambulance demo_initial_state \<and>
      apartment_dana \<notin> tests_transferred_to_lab demo_initial_state \<and>
      0 \<le> nr_matoshim_on_ambulance demo_initial_state - nr_roommates apartment_dana \<and>
      (\<Sum>b \<in> tests_on_ambulance demo_initial_state. nr_roommates b) + nr_roommates apartment_dana
        \<le> taken_tests_storage_capacity (ambulance (problem_input demo_problem))"
    by (simp add: demo_defs)
  have no: "apartment_dana \<in> tests_on_ambulance demo_state_at_dana"
    by (simp add: demo_defs)
  have names: "map operator_name (expand_state_with_costs demo_problem demo_initial_state) =
     [''visit Dana'', ''go to lab East'']"
    by (simp add: expand_defs demo_defs)
  from yes no names
    expand_pickup_successor [of demo_problem demo_initial_state apartment_dana]
    expand_pickup_successor [of demo_problem demo_state_at_dana apartment_dana]
  show ?thesis by blast
qed

text \<open>
  Claim C4, as the code has it. The expansion yields a successor whose site is the
  laboratory \<open>l\<close> exactly when \<open>l\<close> is a laboratory of the input and either \<open>l\<close> has not
  been visited or the total number of tests aboard (the roommates of the apartments on
  the ambulance, summed) is positive. On a first visit the matoshim grow by the supply
  of \<open>l\<close> and \<open>l\<close> joins the visited laboratories; on a repeat visit both stay. In both
  cases the tests on the ambulance move to the transferred ones and the ambulance is
  left empty; the label is "go to lab " followed by the laboratory's name.
\<close>

theorem expand_lab_successor:
  "((\<exists>r \<in> set (expand_state_with_costs p s). current_site (successor_state r) = AtLaboratory l)
      \<longleftrightarrow>
      l \<in> set (laboratories (problem_input p)) \<and>
      (l \<notin> visited_labs s \<or> 0 < (\<Sum>b \<in> tests_on_ambulance s. nr_roommates b))) \<and>
   (\<forall>r \<in> set (expand_state_with_costs p s).
      current_site (successor_state r) = AtLaboratory l \<longrightarrow>
        successor_state r =
          \<lparr>current_site = AtLaboratory l,
           tests_on_ambulance = {},
           tests_transferred_to_lab = tests_transferred_to_lab s \<union> tests_on_ambulance s,
           nr_matoshim_on_ambulance =
             (if l \<notin> visited_labs s then nr_matoshim_on_ambulance s + max_nr_matoshim l
              else nr_matoshim_on_ambulance s),
           visited_labs =
             (if l \<notin> visited_labs s then insert l (visited_labs s) else visited_labs s)\<rparr> \<and>
        operator_name r = ''go to lab '' @ name l \<and>
        operator_cost r = get_operator_cost p s (successor_state r))"
proof (intro conjI ballI impI)
  have "(\<exists>r \<in> set (expand_state_with_costs p s). current_site (successor_state r) = AtLaboratory l)
      \<longleftrightarrow> l \<in> set (laboratories (problem_input p)) \<and> (\<exists>r. r \<in> set (visit_lab p s l))"
    using lab_results [of _ p s l] by blast
  then show "(\<exists>r \<in> set (expand_state_with_costs p s).
        current_site (successor_state r) = AtLaboratory l) \<longleftrightarrow>
      l \<in> set (laboratories (problem_input p)) \<and>
      (l \<notin> visited_labs s \<or> 0 < (\<Sum>b \<in> tests_on_ambulance s. nr_roommates b))"
    unfolding visit_lab_nonempty get_total_nr_tests_taken_and_stored_on_ambulance_def
    by blast
next
  fix r
  assume "r \<in> set (expand_state_with_costs p s)"
    and "current_site (successor_state r) = AtLaboratory l"
  then have r: "r \<in> set (visit_lab p s l)"
    using lab_results [of r p s l] by blast
  from r show "successor_state r =
          \<lparr>current_site = AtLaboratory l,
           tests_on_ambulance = {},
           tests_transferred_to_lab = tests_transferred_to_lab s \<union> tests_on_ambulance s,
           nr_matoshim_on_ambulance =
             (if l \<notin> visited_labs s then nr_matoshim_on_ambulance s + max_nr_matoshim l
              else nr_matoshim_on_ambulance s),
           visited_labs =
             (if l \<notin> visited_labs s then insert l (visited_labs s) else visited_labs s)\<rparr>"
    by (simp add: in_visit_lab)
  from r show "operator_name r = ''go to lab '' @ name l"
    by (simp add: in_visit_lab)
  from r show "operator_cost r = get_operator_cost p s (successor_state r)"
    by (simp add: in_visit_lab)
qed

theorem expand_lab_successor_witness:
  "(\<exists>r \<in> set (expand_state_with_costs demo_problem demo_state_at_dana).
      current_site (successor_state r) = AtLaboratory laboratory_east) \<and>
   \<not> (\<exists>r \<in> set (expand_state_with_costs demo_problem demo_goal_state).
      current_site (successor_state r) = AtLaboratory laboratory_east) \<and>
   map successor_state (expand_state_with_costs demo_problem demo_state_at_dana) =
     [demo_goal_state]"
proof -
  have yes: "laboratory_east \<in> set (laboratories (problem_input demo_problem)) \<and>
      laboratory_east \<notin> visited_labs demo_state_at_dana"
    by (simp add: demo_defs)
  have no: "laboratory_east \<in> visited_labs demo_goal_state \<and>
      \<not> 0 < (\<Sum>b \<in> tests_on_ambulance demo_goal_state. nr_roommates b)"
    by (simp add: demo_defs)
  have succs: "map successor_state (expand_state_with_costs demo_problem demo_state_at_dana) =
     [demo_goal_state]"
    by (simp add: expand_defs demo_defs)
  from yes no succs
    expand_lab_successor [of demo_problem demo_state_at_dana laboratory_east]
    expand_lab_successor [of demo_problem demo_goal_state laboratory_east]
  show ?thesis by blast
qed

text \<open>
  A visited laboratory is not offered again while the only apartment aboard reports no
  roommates: the tests on the ambulance are not empty, their total is zero.
\<close>

theorem revisit_with_empty_tests_not_yielded:
  "laboratory_east \<in> set (laboratories (problem_input demo_problem_noa)) \<and>
   tests_on_ambulance demo_state_at_noa \<noteq> {} \<and>
   expand_state_with_costs demo_problem_noa demo_state_at_noa = []"
  by (simp add: expand_defs demo_defs)

section \<open>Invariants of successor generation\<close>

lemma successor_cases:
  assumes "r \<in> set (expand_state_with_costs p s)"
  obtains (apartment) a where "a \<in> get_reported_apartments_waiting_to_visit p s"
      and "r \<in> set (visit_apartment p s a)"
    | (lab) l where "l \<in> set (laboratories (problem_input p))"
      and "r \<in> set (visit_lab p s l)"
  using assms unfolding expand_cases by blast

text \<open>
  Claim C8, for inputs whose laboratories have no negative supply. From a state whose
  tests on the ambulance and transferred tests are disjoint and whose matoshim count is
  not negative, every successor has both properties again.
\<close>

theorem expand_preserves_invariant:
  assumes disjoint: "tests_on_ambulance s \<inter> tests_transferred_to_lab s = {}"
    and matoshim: "0 \<le> nr_matoshim_on_ambulance s"
    and nonneg: "\<forall>l \<in> set (laboratories (problem_input p)). 0 \<le> max_nr_matoshim l"
  shows "\<forall>r \<in> set (expand_state_with_costs p s).
     tests_on_ambulance (successor_state r) \<inter> tests_transferred_to_lab (successor_state r) = {} \<and>
     0 \<le> nr_matoshim_on_ambulance (successor_state r)"
proof
  fix r
  assume "r \<in> set (expand_state_with_costs p s)"
  then show "tests_on_ambulance (successor_state r) \<inter>
      tests_transferred_to_lab (successor_state r) = {} \<and>
     0 \<le> nr_matoshim_on_ambulance (successor_state r)"
  proof (cases rule: successor_cases)
    case (apartment a)
    from apartment(1) have "a \<notin> tests_transferred_to_lab s"
      by (simp add: waiting_iff)
    with apartment(2) disjoint show ?thesis
      by (auto simp: in_visit_apartment)
  next
    case (lab l)
    from lab(1) nonneg have "0 \<le> max_nr_matoshim l" by blast
    with lab(2) matoshim show ?thesis
      by (auto simp: in_visit_lab)
  qed
qed

theorem expand_preserves_invariant_witness:
  "map (\<lambda>r. nr_matoshim_on_ambulance (successor_state r))
     (expand_state_with_costs demo_problem demo_initial_state) = [1, 8] \<and>
   (\<exists>r \<in> set (expand_state_with_costs demo_problem demo_initial_state).
      tests_on_ambulance (successor_state r) \<inter> tests_transferred_to_lab (successor_state r) = {} \<and>
      0 \<le> nr_matoshim_on_ambulance (successor_state r))"
proof -
  have h1: "tests_on_ambulance demo_initial_state \<inter>
      tests_transferred_to_lab demo_initial_state = {}"
    by (simp add: demo_defs)
  have h2: "0 \<le> nr_matoshim_on_ambulance demo_initial_state"
    by (simp add: demo_defs)
  have h3: "\<forall>l \<in> set (laboratories (problem_input demo_problem)). 0 \<le> max_nr_matoshim l"
    by (simp add: demo_defs)
  have vals: "map (\<lambda>r. nr_matoshim_on_ambulance (successor_state r))
     (expand_state_with_costs demo_problem demo_initial_state) = [1, 8]"
    by (simp add: expand_defs demo_defs)
  then have "expand_state_with_costs demo_problem demo_initial_state \<noteq> []"
    by auto
  then obtain r where "r \<in> set (expand_state_with_costs demo_problem demo_initial_state)"
    by (cases "expand_state_with_costs demo_problem demo_initial_state") auto
  with expand_preserves_invariant [OF h1 h2 h3] vals show ?thesis
    by blast
qed

text \<open>
  With a laboratory of supply \<open>-1\<close>, the first visit from a state with no matoshim
  builds a state with \<open>-1\<close> matoshim.
\<close>

theorem negative_supply_gives_negative_matoshim:
  "tests_on_ambulance demo_state_no_matoshim \<inter> tests_transferred_to_lab demo_state_no_matoshim = {} \<and>
   0 \<le> nr_matoshim_on_ambulance demo_state_no_matoshim \<and>
   map (\<lambda>r. nr_matoshim_on_ambulance (successor_state r))
     (expand_state_with_costs demo_problem_west demo_state_no_matoshim) = [- 1]"
  by (simp add: expand_defs demo_defs)

lemma goal_successor_keeps_delivered:
  assumes empty: "tests_on_ambulance s = {}"
    and all: "tests_transferred_to_lab s = set (reported_apartments (problem_input p))"
    and r: "r \<in> set (expand_state_with_costs p s)"
  shows "tests_on_ambulance (successor_state r) = {} \<and>
    tests_transferred_to_lab (successor_state r) = set (reported_apartments (problem_input p))"
  using r
proof (cases rule: successor_cases)
  case (apartment a)
  with all show ?thesis by (auto simp: waiting_iff)
next
  case (lab l)
  with empty all show ?thesis by (simp add: in_visit_lab)
qed

lemma states_after_keep_delivered:
  "tests_on_ambulance s = {} \<Longrightarrow>
   tests_transferred_to_lab s = set (reported_apartments (problem_input p)) \<Longrightarrow>
   s' \<in> set (states_after p n s) \<Longrightarrow>
   tests_on_ambulance s' = {} \<and>
   tests_transferred_to_lab s' = set (reported_apartments (problem_input p))"
proof (induction n arbitrary: s)
  case 0
  then show ?case by simp
next
  case (Suc n)
  from Suc.prems(3) obtain r where r: "r \<in> set (expand_state_with_costs p s)"
    and s': "s' \<in> set (states_after p n (successor_state r))"
    by auto
  from goal_successor_keeps_delivered [OF Suc.prems(1) Suc.prems(2) r]
  show ?case using Suc.IH [OF _ _ s'] by blast
qed

text \<open>
  Claim C9. No successor has fewer transferred tests than the state it comes from. And
  from a goal state, every state reached by any number of rounds of successor
  generation still has exactly the reported apartments transferred.
\<close>

theorem delivered_never_shrinks:
  "(\<forall>r \<in> set (expand_state_with_costs p s).
      tests_transferred_to_lab s \<subseteq> tests_transferred_to_lab (successor_state r)) \<and>
   (is_goal p s \<longrightarrow>
      (\<forall>n. \<forall>s' \<in> set (states_after p n s).
         tests_transferred_to_lab s' = set (reported_apartments (problem_input p))))"
proof (intro conjI ballI impI allI)
  fix r
  assume "r \<in> set (expand_state_with_costs p s)"
  then show "tests_transferred_to_lab s \<subseteq> tests_transferred_to_lab (successor_state r)"
  proof (cases rule: successor_cases)
    case (apartment a)
    then show ?thesis by (simp add: in_visit_apartment)
  next
    case (lab l)
    then show ?thesis by (auto simp: in_visit_lab)
  qed
next
  fix n s'
  assume goal: "is_goal p s" and s': "s' \<in> set (states_after p n s)"
  from goal have "tests_on_ambulance s = {}"
    and "tests_transferred_to_lab s = set (reported_apartments (problem_input p))"
    by (auto simp: is_goal_def Let_def)
  from states_after_keep_delivered [OF this s']
  show "tests_transferred_to_lab s' = set (reported_apartments (problem_input p))"
    by blast
qed

theorem delivered_never_shrinks_witness:
  "is_goal demo_problem_two_labs demo_goal_state \<and>
   states_after demo_problem_two_labs 1 demo_goal_state = [demo_state_after_north] \<and>
   tests_transferred_to_lab demo_state_after_north =
     set (reported_apartments (problem_input demo_problem_two_labs)) \<and>
   tests_transferred_to_lab demo_goal_state \<subseteq> tests_transferred_to_lab demo_state_after_north"
proof -
  have goal: "is_goal demo_problem_two_labs demo_goal_state"
    by (simp add: is_goal_def demo_defs)
  have step: "expand_state_with_costs demo_problem_two_labs demo_goal_state =
    [\<lparr>successor_state = demo_state_after_north,
      operator_cost = get_operator_cost demo_problem_two_labs demo_goal_state
        demo_state_after_north,
      operator_name = ''go to lab North''\<rparr>]"
    by (simp add: expand_defs demo_defs insert_commute)
  then have after: "states_after demo_problem_two_labs 1 demo_goal_state =
    [demo_state_after_north]"
    by simp
  note inst = delivered_never_shrinks [of demo_problem_two_labs demo_goal_state]
  from inst goal after have "tests_transferred_to_lab demo_state_after_north =
     set (reported_apartments (problem_input demo_problem_two_labs))"
    by (metis list.set_intros(1))
  moreover from inst step have "tests_transferred_to_lab demo_goal_state \<subseteq>
    tests_transferred_to_lab demo_state_after_north"
    by simp
  ultimately show ?thesis using goal after by blast
qed

section \<open>The remaining junctions\<close>

text \<open>
  Claim C10. The list of the remaining junctions has no duplicates, holds exactly the
  current location and the locations of the reported apartments that are neither on
  the ambulance nor transferred, and is sorted by junction index, ascending.
\<close>

theorem remaining_junctions_sorted:
  "distinct (get_all_certain_junctions_in_remaining_ambulance_path p s) \<and>
   set (get_all_certain_junctions_in_remaining_ambulance_path p s) =
     insert (current_location s)
       (ApartmentWithSymptomsReport.location `
          (set (reported_apartments (problem_input p)) -
           (tests_on_ambulance s \<union> tests_transferred_to_lab s))) \<and>
   sorted (map index (get_all_certain_junctions_in_remaining_ambulance_path p s))"
  by (auto simp: get_all_certain_junctions_in_remaining_ambulance_path_def Let_def
      set_iterate_set get_reported_apartments_waiting_to_visit_def)

theorem remaining_junctions_sorted_witness:
  "get_all_certain_junctions_in_remaining_ambulance_path demo_problem demo_initial_state =
     [junction_0, junction_1] \<and>
   sorted (map index
     (get_all_certain_junctions_in_remaining_ambulance_path demo_problem demo_initial_state)) \<and>
   distinct (get_all_certain_junctions_in_remaining_ambulance_path demo_problem demo_initial_state)"
proof -
  have "get_all_certain_junctions_in_remaining_ambulance_path demo_problem demo_initial_state =
     [junction_0, junction_1]"
    by (simp add: get_all_certain_junctions_in_remaining_ambulance_path_def expand_defs
        current_location_def demo_defs)
  with remaining_junctions_sorted [of demo_problem demo_initial_state] show ?thesis
    by blast
qed

section \<open>The reconciliation policy of AStar\<close>

lemma get_node_by_state_state:
  "get_node_by_state c s = Some n \<Longrightarrow> state n = s"
  by (auto simp: get_node_by_state_def find_Some_iff)

lemma get_node_by_state_removed:
  "get_node_by_state (filter (\<lambda>m. state m \<noteq> s) c) t =
     (if t = s then None else get_node_by_state c t)"
  unfolding get_node_by_state_def
  by (induction c) auto

text \<open>
  Claim C1. For a successor node \<open>S\<close> of state \<open>s\<close>: when Open holds a node for \<open>s\<close>,
  \<open>S\<close> takes its place if its cost is strictly smaller, and nothing changes otherwise;
  else, when Close holds a node for \<open>s\<close>, that entry leaves Close and \<open>S\<close> enters Open
  if the cost of \<open>S\<close> is strictly smaller, and nothing changes if it is not; else \<open>S\<close>
  enters Open. The call never fails. The last three conjuncts say what the resulting
  containers hold: \<open>S\<close> for \<open>s\<close>, nothing for \<open>s\<close> after a removal, and what they held
  before for every other state.
\<close>

theorem open_successor_node_policy:
  "(\<forall>existing. get_node_by_state (open_queue self) (state S) = Some existing \<longrightarrow>
      (g_cost S < g_cost existing \<longrightarrow>
         open_successor_node self S =
           Inr (self\<lparr>open_queue :=
                  S # filter (\<lambda>m. state m \<noteq> state S) (open_queue self)\<rparr>)) \<and>
      (\<not> g_cost S < g_cost existing \<longrightarrow> open_successor_node self S = Inr self)) \<and>
   (\<forall>existing. get_node_by_state (open_queue self) (state S) = None \<and>
        get_node_by_state (close_coll self) (state S) = Some existing \<longrightarrow>
      (g_cost S < g_cost existing \<longrightarrow>
         open_successor_node self S =
           Inr (self\<lparr>close_coll := filter (\<lambda>m. state m \<noteq> state S) (close_coll self),
                     open_queue := S # open_queue self\<rparr>)) \<and>
      (g_cost existing \<le> g_cost S \<longrightarrow> open_successor_node self S = Inr self)) \<and>
   (get_node_by_state (open_queue self) (state S) = None \<and>
      get_node_by_state (close_coll self) (state S) = None \<longrightarrow>
      open_successor_node self S = Inr (self\<lparr>open_queue := S # open_queue self\<rparr>)) \<and>
   (\<forall>c t. get_node_by_state (S # filter (\<lambda>m. state m \<noteq> state S) c) t =
      (if t = state S then Some S else get_node_by_state c t)) \<and>
   (\<forall>c t. get_node_by_state (filter (\<lambda>m. state m \<noteq> state S) c) t =
      (if t = state S then None else get_node_by_state c t)) \<and>
   (\<forall>c t. get_node_by_state (S # c) t =
      (if t = state S then Some S else get_node_by_state c t))"
proof -
  have open_branch: "(g_cost S < g_cost existing \<longrightarrow>
         open_successor_node self S =
           Inr (self\<lparr>open_queue :=
                  S # filter (\<lambda>m. state m \<noteq> state S) (open_queue self)\<rparr>)) \<and>
      (\<not> g_cost S < g_cost existing \<longrightarrow> open_successor_node self S = Inr self)"
    if "get_node_by_state (open_queue self) (state S) = Some existing" for existing
    using that get_node_by_state_state [OF that]
    by (simp add: open_successor_node_def has_state_def push_node_def extract_node_def)
  have close_branch: "(g_cost S < g_cost existing \<longrightarrow>
         open_successor_node self S =
           Inr (self\<lparr>close_coll := filter (\<lambda>m. state m \<noteq> state S) (close_coll self),
                     open_queue := S # open_queue self\<rparr>)) \<and>
      (g_cost existing \<le> g_cost S \<longrightarrow> open_successor_node self S = Inr self)"
    if "get_node_by_state (open_queue self) (state S) = None"
      and "get_node_by_state (close_coll self) (state S) = Some existing" for existing
    using that
    by (simp add: open_successor_node_def has_state_def push_node_def remove_node_def)
  have fresh: "open_successor_node self S = Inr (self\<lparr>open_queue := S # open_queue self\<rparr>)"
    if "get_node_by_state (open_queue self) (state S) = None"
      and "get_node_by_state (close_coll self) (state S) = None"
    using that by (simp add: open_successor_node_def has_state_def push_node_def)
  have lookup_pushed: "get_node_by_state (S # c) t =
      (if t = state S then Some S else get_node_by_state c t)" for c t
    by (auto simp: get_node_by_state_def)
  have lookup_replaced: "get_node_by_state (S # filter (\<lambda>m. state m \<noteq> state S) c) t =
      (if t = state S then Some S else get_node_by_state c t)" for c t
    by (simp add: lookup_pushed get_node_by_state_removed)
  show ?thesis
    using open_branch close_branch fresh lookup_pushed lookup_replaced
      get_node_by_state_removed [of "state S"]
    by blast
qed

lemmas demo_solver_defs = demo_solver_open_def demo_solver_closed_def demo_solver_def
  demo_old_node_def demo_cheap_node_def demo_other_node_def demo_node_def
  init_solver_def BestFirstSearch_init_solver_def AStar_init_def

theorem open_successor_node_policy_witness:
  "open_successor_node demo_solver_open demo_cheap_node =
     Inr (demo_solver_open\<lparr>open_queue := [demo_cheap_node, demo_other_node]\<rparr>) \<and>
   open_successor_node demo_solver_open demo_old_node = Inr demo_solver_open \<and>
   open_successor_node demo_solver_closed demo_cheap_node =
     Inr (demo_solver_closed\<lparr>close_coll := [],
            open_queue := [demo_cheap_node, demo_other_node]\<rparr>) \<and>
   open_successor_node demo_solver_closed demo_old_node = Inr demo_solver_closed \<and>
   open_successor_node demo_solver demo_node = Inr (demo_solver\<lparr>open_queue := [demo_node]\<rparr>)"
proof -
  have in_open: "get_node_by_state (open_queue demo_solver_open) (state demo_cheap_node) =
      Some demo_old_node"
    "get_node_by_state (open_queue demo_solver_open) (state demo_old_node) = Some demo_old_node"
    by (simp_all add: get_node_by_state_def demo_solver_defs)
  have in_close: "get_node_by_state (open_queue demo_solver_closed) (state demo_cheap_node) = None"
    "get_node_by_state (close_coll demo_solver_closed) (state demo_cheap_node) =
      Some demo_old_node"
    "get_node_by_state (open_queue demo_solver_closed) (state demo_old_node) = None"
    "get_node_by_state (close_coll demo_solver_closed) (state demo_old_node) =
      Some demo_old_node"
    by (simp_all add: get_node_by_state_def demo_solver_defs)
  have nowhere: "get_node_by_state (open_queue demo_solver) (state demo_node) = None"
    "get_node_by_state (close_coll demo_solver) (state demo_node) = None"
    by (simp_all add: get_node_by_state_def demo_solver_defs)
  have costs: "g_cost demo_cheap_node < g_cost demo_old_node"
    "\<not> g_cost demo_old_node < g_cost demo_old_node"
    "g_cost demo_old_node \<le> g_cost demo_old_node"
    by (simp_all add: demo_solver_defs)
  from open_successor_node_policy [of demo_solver_open demo_cheap_node] in_open(1) costs(1)
  have a: "open_successor_node demo_solver_open demo_cheap_node =
     Inr (demo_solver_open\<lparr>open_queue :=
       demo_cheap_node # filter (\<lambda>m. state m \<noteq> state demo_cheap_node)
         (open_queue demo_solver_open)\<rparr>)"
    by blast
  from open_successor_node_policy [of demo_solver_open demo_old_node] in_open(2) costs(2)
  have b: "open_successor_node demo_solver_open demo_old_node = Inr demo_solver_open"
    by blast
  from open_successor_node_policy [of demo_solver_closed demo_cheap_node]
    in_close(1) in_close(2) costs(1)
  have c: "open_successor_node demo_solver_closed demo_cheap_node =
     Inr (demo_solver_closed\<lparr>close_coll :=
            filter (\<lambda>m. state m \<noteq> state demo_cheap_node) (close_coll demo_solver_closed),
          open_queue := demo_cheap_node # open_queue demo_solver_closed\<rparr>)"
    by blast
  from open_successor_node_policy [of demo_solver_closed demo_old_node]
    in_close(3) in_close(4) costs(3)
  have d: "open_successor_node demo_solver_closed demo_old_node = Inr demo_solver_closed"
    by blast
  from open_successor_node_policy [of demo_solver demo_node] nowhere
  have e: "open_successor_node demo_solver demo_node =
     Inr (demo_solver\<lparr>open_queue := demo_node # open_queue demo_solver\<rparr>)"
    by blast
  have a': "demo_cheap_node # filter (\<lambda>m. state m \<noteq> state demo_cheap_node)
         (open_queue demo_solver_open) = [demo_cheap_node, demo_other_node]"
    by (simp add: demo_solver_defs)
  have c': "filter (\<lambda>m. state m \<noteq> state demo_cheap_node) (close_coll demo_solver_closed) = []"
    "demo_cheap_node # open_queue demo_solver_closed = [demo_cheap_node, demo_other_node]"
    by (simp_all add: demo_solver_defs)
  have e': "demo_node # open_queue demo_solver = [demo_node]"
    by (simp add: demo_solver_defs)
  from a b c d e show ?thesis
    unfolding a' c' e' by blast
qed

end
